theory Spec2Isabelle
  imports Main "HOL-Library.Word"
begin

section \<open>The save-file decoder of tarification.py\<close>

text \<open>
  A shallow embedding of \<^verbatim>\<open>src/tarification.py\<close>. Bytes are 8-bit words, a Python
  \<^verbatim>\<open>bytes\<close> value is a list of them, and a Python \<^verbatim>\<open>int\<close> is an \<^typ>\<open>int\<close>.
  The input buffer (\<^verbatim>\<open>BinaryIO\<close>) is a byte list with a cursor; the files the
  decoder opens for writing are a log kept in the same state. An exception is a value
  of \<open>py_error\<close>; the state reached when it is raised is returned beside it, since
  nothing in the module catches an exception. The text sent to \<^verbatim>\<open>print\<close> is trace
  output and is left out, except where building the printed string raises.
\<close>

subsection \<open>Values, exceptions and the input buffer\<close>

type_synonym byte = "8 word"

datatype runtime_msg =
    UnexpectedStringHeader nat "byte list"
  | FinishedBeforeEOF nat nat

datatype py_error =
    AssertionError
  | AttributeError
  | NameError
  | TypeError
  | IndexError
  | OverflowError
  | RecursionError
  | SystemExit
  | RuntimeError runtime_msg

record io =
  data :: "byte list"
  pos :: nat
  written :: "(string \<times> byte list) list"

text \<open>\<^verbatim>\<open>input_buffer.read(n)\<close>: at most \<open>n\<close> bytes from the cursor, which moves by
  what was read; at the end of the data the result is empty.\<close>

definition read :: "nat \<Rightarrow> io \<Rightarrow> byte list \<times> io" where
  "read n s = (let bs = take n (drop (pos s) (data s))
               in (bs, s\<lparr>pos := pos s + length bs\<rparr>))"

definition tell :: "io \<Rightarrow> nat" where
  "tell s = pos s"

definition seek :: "nat \<Rightarrow> io \<Rightarrow> io" where
  "seek p s = s\<lparr>pos := p\<rparr>"

text \<open>\<^verbatim>\<open>input_buffer.seek(0, SEEK_END)\<close>.\<close>

definition seek_end :: "io \<Rightarrow> io" where
  "seek_end s = s\<lparr>pos := length (data s)\<rparr>"

text \<open>\<^verbatim>\<open>with open(path, 'wb') as f: f.write(content)\<close>.\<close>

definition write_file :: "string \<Rightarrow> byte list \<Rightarrow> io \<Rightarrow> io" where
  "write_file path content s = s\<lparr>written := written s @ [(path, content)]\<rparr>"

text \<open>\<^verbatim>\<open>int.from_bytes(bs, "little", signed=False)\<close>.\<close>

fun from_bytes :: "byte list \<Rightarrow> int" where
  "from_bytes [] = 0"
| "from_bytes (x # xs) = uint x + 256 * from_bytes xs"

text \<open>The \<open>n\<close> little-endian digits of \<open>x\<close>, and \<^verbatim>\<open>x.to_bytes(n, "little", signed=False)\<close>,
  which raises OverflowError when \<open>x\<close> is negative or does not fit.\<close>

fun le_bytes :: "nat \<Rightarrow> int \<Rightarrow> byte list" where
  "le_bytes 0 x = []"
| "le_bytes (Suc n) x = word_of_int (x mod 256) # le_bytes n (x div 256)"

definition to_bytes :: "nat \<Rightarrow> int \<Rightarrow> py_error + byte list" where
  "to_bytes n x = (if 0 \<le> x \<and> x < 256 ^ n then Inr (le_bytes n x) else Inl OverflowError)"

definition parse_int32 :: "io \<Rightarrow> int \<times> io" where
  "parse_int32 s = (case read 4 s of (bs, s') \<Rightarrow> (from_bytes bs, s'))"

definition to_bytes4 :: "int \<Rightarrow> py_error + byte list" where
  "to_bytes4 x = to_bytes 4 x"

subsection \<open>Markers and elements\<close>

datatype marker = Marker (name: "byte list") (type': int)

datatype byte_data = ByteData (b: "byte list") (b_per_element: int)

text \<open>The result of \<^verbatim>\<open>_read_byte_data\<close>: \<^verbatim>\<open>ByteData | bytes\<close>.\<close>

datatype byte_data_or_bytes = IsByteData byte_data | IsBytes "byte list"

text \<open>The subclasses of \<^verbatim>\<open>GameElement\<close>. The children of an array are the values
  \<^verbatim>\<open>parse_element\<close> returned, so each is an element or \<^verbatim>\<open>None\<close>.\<close>

datatype game_element =
    IntElement marker int
  | UnknownStringElement marker "byte list"
  | StringElement marker byte_data
  | UtfStringElement marker byte_data
  | Unknown16Bytes marker "byte list"
  | TimestampElement marker int
  | Unknown12Bytes marker "byte list"
  | BooleanElement marker int
  | CompressedElement marker "byte list" int "byte list list"
  | Array0AElement marker "game_element option list"
  | Array0BElement marker "byte list" "game_element option list"

text \<open>\<^verbatim>\<open>_parse_marker(input_buffer, name=None)\<close>: \<^verbatim>\<open>name or input_buffer.read(4)\<close> reads
  when the given name is absent or empty; an empty name gives \<^verbatim>\<open>None\<close>.\<close>

definition parse_marker :: "byte list option \<Rightarrow> io \<Rightarrow> marker option \<times> io" where
  "parse_marker given s =
     (case (case given of
              None \<Rightarrow> read 4 s
            | Some nm \<Rightarrow> if nm = [] then read 4 s else (nm, s)) of
        (nm, s1) \<Rightarrow>
          if length nm = 0 then (None, s1)
          else (case parse_int32 s1 of (t, s2) \<Rightarrow> (Some (Marker nm t), s2)))"

text \<open>\<^verbatim>\<open>_read_byte_data\<close>. In the branch of a zero length the RuntimeError for four
  bytes that are not zero is built and dropped: the source has no \<^verbatim>\<open>raise\<close> there.\<close>

definition read_byte_data :: "io \<Rightarrow> (py_error + byte_data_or_bytes) \<times> io" where
  "read_byte_data s =
     (case read 3 s of (lbs, s1) \<Rightarrow>
      let l = from_bytes lbs in
      case read 1 s1 of (header, s2) \<Rightarrow>
      if header = [0x21] then
        (case parse_int32 s2 of (bpe, s3) \<Rightarrow>
         case read (nat (l * bpe)) s3 of (bs, s4) \<Rightarrow>
           (Inr (IsByteData (ByteData bs bpe)), s4))
      else if l = 0 then
        (case read 4 s2 of (b_per_element_bytes, s3) \<Rightarrow>
         case read 4 s3 of (supposed_zeroes, s4) \<Rightarrow>
           (Inr (IsBytes (le_bytes 3 l @ header @ b_per_element_bytes)), s4))
      else (Inl (RuntimeError (UnexpectedStringHeader (tell s2) header)), s2))"

text \<open>The chunk loop of the compressed element (type code 0x18): \<open>i\<close> starts at 8;
  fewer than four bytes where a chunk length is due end the program (\<^verbatim>\<open>exit(1)\<close>).\<close>

function chunk_loop :: "byte list \<Rightarrow> nat \<Rightarrow> byte list list \<Rightarrow> py_error + byte list list" where
  "chunk_loop bs i chunks =
     (if i < length bs \<and> drop i bs \<noteq> [0, 0, 0xFF, 0xFF] then
        if length bs - i < 4 then Inl SystemExit
        else
          let chunk_len = nat (from_bytes (take 4 (drop i bs)))
          in chunk_loop bs (i + 4 + chunk_len) (chunks @ [take chunk_len (drop (i + 4) bs)])
      else Inr chunks)"
  by pat_completeness auto
termination
  by (relation "measure (\<lambda>(bs, i, chunks). length bs - i)") auto

declare chunk_loop.simps [simp del]

text \<open>\<^verbatim>\<open>parse_element\<close>. The first argument bounds the depth of the nested calls,
  as the interpreter's recursion limit does: an array that would go deeper raises
  RecursionError. The two loops over the children of an array are functions of their
  own. A marker that is \<^verbatim>\<open>None\<close> matches no class pattern and falls to the last case.\<close>

fun parse_element :: "nat \<Rightarrow> marker option \<Rightarrow> io \<Rightarrow> (py_error + game_element option) \<times> io"
  and array0A_loop :: "nat \<Rightarrow> nat \<Rightarrow> io \<Rightarrow> (py_error + game_element option list) \<times> io"
  and array0B_loop :: "nat \<Rightarrow> nat \<Rightarrow> io \<Rightarrow> (py_error + game_element option list) \<times> io"
where
  "parse_element d None s = (Inr None, s)"
| "parse_element d (Some m) s =
     (if type' m = 0x1 then
        (case read 8 s of (buf, s1) \<Rightarrow>
         if buf \<noteq> replicate 8 0 then (Inr None, s1)
         else (case parse_int32 s1 of (v, s2) \<Rightarrow>
               if v > 1 then (Inr None, s2)
               else (Inr (Some (BooleanElement m v)), s2)))
      else if type' m = 0x2 then
        (case read 8 s of (buf, s1) \<Rightarrow>
         if buf \<noteq> replicate 8 0 then (Inr None, s1)
         else (case parse_int32 s1 of (v, s2) \<Rightarrow>
               (Inr (Some (IntElement m v)), s2)))
      else if type' m = 0x3 then
        (case read 12 s of (c, s1) \<Rightarrow> (Inr (Some (Unknown12Bytes m c)), s1))
      else if type' m = 0x4 \<or> type' m = 0x5 then
        (case read_byte_data s of
           (Inl e, s1) \<Rightarrow> (Inl e, s1)
         | (Inr (IsBytes h), s1) \<Rightarrow> (Inr (Some (UnknownStringElement m h)), s1)
         | (Inr (IsByteData bd), s1) \<Rightarrow>
             if b_per_element bd \<noteq> 1 then (Inl AssertionError, s1)
             else (Inr (Some (StringElement m bd)), s1))
      else if type' m = 0x6 then
        (case read_byte_data s of
           (Inl e, s1) \<Rightarrow> (Inl e, s1)
         | (Inr (IsBytes h), s1) \<Rightarrow> (Inl AttributeError, s1)
         | (Inr (IsByteData bd), s1) \<Rightarrow>
             if b_per_element bd \<noteq> 2 then (Inl AssertionError, s1)
             else (Inr (Some (UtfStringElement m bd)), s1))
      else if type' m = 0xA then
        (case read 8 s of (pre, s1) \<Rightarrow>
         if pre \<noteq> [0, 0, 0, 0x05, 0, 0, 0, 0] then (Inl AssertionError, s1)
         else (case parse_int32 s1 of (element_count, s2) \<Rightarrow>
               (case array0A_loop d (nat element_count) s2 of
                  (Inl e, s3) \<Rightarrow> (Inl e, s3)
                | (Inr elements, s3) \<Rightarrow> (Inr (Some (Array0AElement m elements)), s3))))
      else if type' m = 0xB then
        (case read 8 s of (header, s1) \<Rightarrow>
         case parse_int32 s1 of (sz, s2) \<Rightarrow>
         (case array0B_loop d (nat sz) s2 of
            (Inl e, s3) \<Rightarrow> (Inl e, s3)
          | (Inr entries, s3) \<Rightarrow> (Inr (Some (Array0BElement m header entries)), s3)))
      else if type' m = 0xD then
        (case read 16 s of (c, s1) \<Rightarrow> (Inr (Some (Unknown16Bytes m c)), s1))
      else if type' m = 0x14 then
        (case read 8 s of (pre, s1) \<Rightarrow>
         if pre \<noteq> [0, 0, 0, 0x80, 0, 0, 0, 0] then (Inl AssertionError, s1)
         else (case parse_int32 s1 of (timestamp, s2) \<Rightarrow>
               case read 4 s2 of (post, s3) \<Rightarrow>
               if post \<noteq> [0, 0, 0, 0] then (Inl AssertionError, s3)
               else (Inr (Some (TimestampElement m timestamp)), s3)))
      else if type' m = 0x18 then
        (case read_byte_data s of
           (Inl e, s1) \<Rightarrow> (Inl e, s1)
         | (Inr (IsBytes h), s1) \<Rightarrow> (Inl AttributeError, write_file ''debug.bin'' [] s1)
         | (Inr (IsByteData bd), s1) \<Rightarrow>
             let s2 = write_file ''debug.bin'' (b bd) s1;
                 bs = b bd;
                 header = take 4 bs;
                 inflated_size = from_bytes (take 4 (drop 4 bs))
             in (case chunk_loop bs 8 [] of
                   Inl e \<Rightarrow> (Inl e, s2)
                 | Inr chunks \<Rightarrow>
                     (Inr (Some (CompressedElement m header inflated_size chunks)),
                      write_file ''debug2.bin'' (concat chunks) s2)))
      else (Inr None, s))"
| "array0A_loop d 0 s = (Inr [], s)"
| "array0A_loop d (Suc n) s =
     (case parse_marker None s of (element_marker, s1) \<Rightarrow>
      (case d of
         0 \<Rightarrow> (Inl RecursionError, s1)
       | Suc d' \<Rightarrow>
           (case parse_element d' element_marker s1 of
              (Inl e, s2) \<Rightarrow> (Inl e, s2)
            | (Inr element, s2) \<Rightarrow>
                (case array0A_loop d n s2 of
                   (Inl e, s3) \<Rightarrow> (Inl e, s3)
                 | (Inr elements, s3) \<Rightarrow> (Inr (element # elements), s3)))))"
| "array0B_loop d 0 s = (Inr [], s)"
| "array0B_loop d (Suc n) s =
     (case parse_int32 s of (entry_type, s1) \<Rightarrow>
      (case d of
         0 \<Rightarrow> (Inl RecursionError, s1)
       | Suc d' \<Rightarrow>
           (case parse_element d' (Some (Marker [0, 0, 0, 0] entry_type)) s1 of
              (Inl e, s2) \<Rightarrow> (Inl e, s2)
            | (Inr entry, s2) \<Rightarrow>
                (case array0B_loop d n s2 of
                   (Inl e, s3) \<Rightarrow> (Inl e, s3)
                 | (Inr entries, s3) \<Rightarrow> (Inr (entry # entries), s3)))))"

subsection \<open>Sections\<close>

text \<open>\<^verbatim>\<open>parse_weird_constant_data\<close> stores the builtin class \<^verbatim>\<open>bytes\<close> in the field
  \<^verbatim>\<open>bytes_\<close>, not the bytes it read, so the field holds either.\<close>

datatype bytes_field = BytesClass | BytesValue "byte list"

text \<open>The subclasses of \<^verbatim>\<open>FileSection\<close>. \<^verbatim>\<open>NamelessSection\<close> is a subclass of
  \<^verbatim>\<open>RegularFileSection\<close>; \<^verbatim>\<open>EmptyFileSection\<close> is not.\<close>

datatype file_section =
    RegularFileSection int "game_element option list"
  | NamelessSection int "game_element option list"
  | EmptyFileSection
  | MultiSection "(int \<times> game_element option list) list"
  | CompressedSection "byte list list"
  | BitmapSection int "int \<times> int" "int list"
  | PairsSection "byte list list"
  | AlmostConstantSection bytes_field "byte list list"
  | CustomDataSection "byte list" "game_element option list"

text \<open>\<^verbatim>\<open>parse_n_elements\<close>. An element that is \<^verbatim>\<open>None\<close> is printed and appended; the
  second print calls \<^verbatim>\<open>marker.pretty_str()\<close>, which raises AttributeError when the
  marker is \<^verbatim>\<open>None\<close> too.\<close>

fun parse_n_elements :: "nat \<Rightarrow> nat \<Rightarrow> io \<Rightarrow> (py_error + game_element option list) \<times> io" where
  "parse_n_elements d 0 s = (Inr [], s)"
| "parse_n_elements d (Suc n) s =
     (case parse_marker None s of (marker, s1) \<Rightarrow>
      (case parse_element d marker s1 of
         (Inl e, s2) \<Rightarrow> (Inl e, s2)
       | (Inr element, s2) \<Rightarrow>
           if element = None \<and> marker = None then (Inl AttributeError, s2)
           else (case parse_n_elements d n s2 of
                   (Inl e, s3) \<Rightarrow> (Inl e, s3)
                 | (Inr elements, s3) \<Rightarrow> (Inr (element # elements), s3))))"

text \<open>\<^verbatim>\<open>parse_regular_section\<close>. \<^verbatim>\<open>type_[0]\<close> raises IndexError when nothing was read.\<close>

definition parse_regular_section :: "nat \<Rightarrow> io \<Rightarrow> (py_error + file_section) \<times> io" where
  "parse_regular_section d s =
     (case read 4 s of (type_bytes, s1) \<Rightarrow>
      if type_bytes = [0x10, 0, 0, 0] then (Inr EmptyFileSection, s1)
      else (case parse_int32 s1 of (count, s2) \<Rightarrow>
            (case type_bytes of
               [] \<Rightarrow> (Inl IndexError, s2)
             | t0 # _ \<Rightarrow>
                 let count' = (if uint t0 = 1 \<and> count > 0x40 then count + 4 else count) in
                 (case parse_n_elements d (nat count') s2 of
                    (Inl e, s3) \<Rightarrow> (Inl e, s3)
                  | (Inr elements, s3) \<Rightarrow> (Inr (RegularFileSection (uint t0) elements), s3)))))"

definition parse_nameless_section :: "nat \<Rightarrow> io \<Rightarrow> (py_error + file_section) \<times> io" where
  "parse_nameless_section d s =
     (case parse_int32 s of (count, s1) \<Rightarrow>
      let count' = (if count > 0x40 then count + 4 else count) in
      (case parse_n_elements d (nat count') s1 of
         (Inl e, s2) \<Rightarrow> (Inl e, s2)
       | (Inr elements, s2) \<Rightarrow> (Inr (NamelessSection (- 1) elements), s2)))"

fun multisection_loop ::
  "nat \<Rightarrow> nat \<Rightarrow> io \<Rightarrow> (py_error + (int \<times> game_element option list) list) \<times> io" where
  "multisection_loop d 0 s = (Inr [], s)"
| "multisection_loop d (Suc n) s =
     (case parse_int32 s of (idx, s1) \<Rightarrow>
      case parse_int32 s1 of (subcount, s2) \<Rightarrow>
      (case parse_n_elements d (nat subcount) s2 of
         (Inl e, s3) \<Rightarrow> (Inl e, s3)
       | (Inr elements, s3) \<Rightarrow>
           (case multisection_loop d n s3 of
              (Inl e, s4) \<Rightarrow> (Inl e, s4)
            | (Inr res, s4) \<Rightarrow> (Inr ((idx, elements) # res), s4))))"

definition parse_multisection :: "nat \<Rightarrow> io \<Rightarrow> (py_error + file_section) \<times> io" where
  "parse_multisection d s =
     (case parse_int32 s of (count, s1) \<Rightarrow>
      (case multisection_loop d (nat count) s1 of
         (Inl e, s2) \<Rightarrow> (Inl e, s2)
       | (Inr res, s2) \<Rightarrow> (Inr (MultiSection res), s2)))"

text \<open>\<^verbatim>\<open>parse_compressed\<close>: the loop returns after the first chunk whose length field
  is below 0x10000. A length field that large was read from at least three bytes, so
  every other round moves the cursor.\<close>

function compressed_loop :: "byte list list \<Rightarrow> io \<Rightarrow> byte list list \<times> io" where
  "compressed_loop chunks s =
     (case parse_int32 s of (chunk_size, s1) \<Rightarrow>
      case read (nat chunk_size) s1 of (chunk, s2) \<Rightarrow>
      if chunk_size < 0x10000 then (chunks @ [chunk], s2)
      else compressed_loop (chunks @ [chunk]) s2)"
  by pat_completeness auto
termination
  apply (relation "measure (\<lambda>(chunks, s). length (data s) - pos s)")
   apply simp
  apply (auto simp: parse_int32_def read_def Let_def)
  subgoal for s
    by (cases "pos s < length (data s)") (auto simp: min_def)
  done

declare compressed_loop.simps [simp del]

definition parse_compressed :: "io \<Rightarrow> file_section \<times> io" where
  "parse_compressed s = (case compressed_loop [] s of (chunks, s1) \<Rightarrow> (CompressedSection chunks, s1))"

text \<open>The list comprehensions \<^verbatim>\<open>[_parse_int32(input_buffer) for _ in range(n)]\<close> and
  \<^verbatim>\<open>[input_buffer.read(k) for _ in range(n)]\<close>.\<close>

fun parse_int32s :: "nat \<Rightarrow> io \<Rightarrow> int list \<times> io" where
  "parse_int32s 0 s = ([], s)"
| "parse_int32s (Suc n) s =
     (case parse_int32 s of (x, s1) \<Rightarrow>
      case parse_int32s n s1 of (xs, s2) \<Rightarrow> (x # xs, s2))"

fun reads :: "nat \<Rightarrow> nat \<Rightarrow> io \<Rightarrow> byte list list \<times> io" where
  "reads k 0 s = ([], s)"
| "reads k (Suc n) s =
     (case read k s of (x, s1) \<Rightarrow>
      case reads k n s1 of (xs, s2) \<Rightarrow> (x # xs, s2))"

definition parse_bmap :: "io \<Rightarrow> file_section \<times> io" where
  "parse_bmap s =
     (case parse_int32 s of (t, s1) \<Rightarrow>
      case parse_int32 s1 of (size0, s2) \<Rightarrow>
      case parse_int32 s2 of (size1, s3) \<Rightarrow>
      case parse_int32s (nat (size0 * size1)) s3 of (bmap, s4) \<Rightarrow>
        (BitmapSection t (size0, size1) bmap, s4))"

definition parse_pairs_section :: "io \<Rightarrow> (py_error + file_section) \<times> io" where
  "parse_pairs_section s =
     (case read 4 s of (magic, s1) \<Rightarrow>
      if magic \<noteq> [0xa5, 0xa5, 0, 0] then (Inl AssertionError, s1)
      else (case parse_int32 s1 of (count, s2) \<Rightarrow>
            case reads 10 (nat count) s2 of (entries, s3) \<Rightarrow>
              (Inr (PairsSection entries), s3)))"

definition parse_weird_constant_data :: "io \<Rightarrow> (py_error + file_section) \<times> io" where
  "parse_weird_constant_data s =
     (case parse_int32 s of (len_bytes, s1) \<Rightarrow>
      case read (nat len_bytes) s1 of (bytes_read, s2) \<Rightarrow>
      case parse_int32 s2 of (len_tuples, s3) \<Rightarrow>
      case reads 5 (nat len_tuples) s3 of (tuples, s4) \<Rightarrow>
      case read 12 s4 of (trailer, s5) \<Rightarrow>
      if trailer \<noteq> [1, 0, 0, 0, 1, 0, 0, 0, 1, 0, 0, 0] then (Inl AssertionError, s5)
      else (Inr (AlmostConstantSection BytesClass tuples), s5))"

definition parse_custom_data :: "nat \<Rightarrow> io \<Rightarrow> (py_error + file_section) \<times> io" where
  "parse_custom_data d s =
     (case parse_int32 s of (len_label, s1) \<Rightarrow>
      case read (nat len_label) s1 of (label, s2) \<Rightarrow>
      case parse_int32 s2 of (count, s3) \<Rightarrow>
      (case parse_n_elements d (nat count) s3 of
         (Inl e, s4) \<Rightarrow> (Inl e, s4)
       | (Inr elements, s4) \<Rightarrow> (Inr (CustomDataSection label elements), s4)))"

subsection \<open>The strict document parse\<close>

text \<open>The test that ends stage 1 of \<^verbatim>\<open>parse_civ6save\<close>:
  \<^verbatim>\<open>isinstance(section, RegularFileSection) and not section.elements\<close>. A
  \<^verbatim>\<open>NamelessSection\<close> is an instance of its base class; an \<^verbatim>\<open>EmptyFileSection\<close>
  is not.\<close>

definition stage1_break :: "file_section \<Rightarrow> bool" where
  "stage1_break section =
     (case section of
        RegularFileSection t elements \<Rightarrow> elements = []
      | NamelessSection t elements \<Rightarrow> elements = []
      | _ \<Rightarrow> False)"

text \<open>Stage 1 of \<^verbatim>\<open>parse_civ6save\<close>: the \<^verbatim>\<open>while True\<close> loop, left only through the
  \<^verbatim>\<open>break\<close> or by an exception. A run that never returns is \<open>None\<close>.\<close>

partial_function (option) stage1_loop ::
  "nat \<Rightarrow> file_section list \<Rightarrow> io \<Rightarrow> ((py_error + file_section list) \<times> io) option" where
  "stage1_loop d result s =
     (case parse_regular_section d s of
        (Inl e, s1) \<Rightarrow> Some (Inl e, s1)
      | (Inr section, s1) \<Rightarrow>
          if stage1_break section then Some (Inr (result @ [section]), s1)
          else stage1_loop d (result @ [section]) s1)"

declare stage1_loop.simps [code]

text \<open>Stages 0 to 8 of \<^verbatim>\<open>parse_civ6save\<close> (the magic bytes, then the sections in
  their fixed order), up to the last \<^verbatim>\<open>result.append\<close>.\<close>

definition parse_stages ::
  "nat \<Rightarrow> io \<Rightarrow> ((py_error + file_section list) \<times> io) option" where
  "parse_stages d s =
     (case read 4 s of (magic, s0) \<Rightarrow>
      if magic \<noteq> [0x43, 0x49, 0x56, 0x36] then Some (Inl AssertionError, s0)
      else
        (case stage1_loop d [] s0 of
           None \<Rightarrow> None
         | Some (Inl e, s1) \<Rightarrow> Some (Inl e, s1)
         | Some (Inr result, s1) \<Rightarrow>
             (case parse_multisection d s1 of
                (Inl e, s2) \<Rightarrow> Some (Inl e, s2)
              | (Inr sec2, s2) \<Rightarrow>
                  (case parse_nameless_section d s2 of
                     (Inl e, s3) \<Rightarrow> Some (Inl e, s3)
                   | (Inr sec3, s3) \<Rightarrow>
                       (case parse_compressed s3 of (sec4, s4) \<Rightarrow>
                        case parse_bmap s4 of (sec5, s5) \<Rightarrow>
                        (case parse_pairs_section s5 of
                           (Inl e, s6) \<Rightarrow> Some (Inl e, s6)
                         | (Inr sec6, s6) \<Rightarrow>
                             (case parse_weird_constant_data s6 of
                                (Inl e, s7) \<Rightarrow> Some (Inl e, s7)
                              | (Inr sec7, s7) \<Rightarrow>
                                  (case parse_custom_data d s7 of
                                     (Inl e, s8) \<Rightarrow> Some (Inl e, s8)
                                   | (Inr sec8, s8) \<Rightarrow>
                                       Some (Inr (result @
                                          [sec2, sec3, sec4, sec5, sec6, sec7, sec8]), s8)))))))))"

text \<open>\<^verbatim>\<open>parse_civ6save\<close>: the stages, then the comparison of the cursor with the end
  of the file.\<close>

definition parse_civ6save ::
  "nat \<Rightarrow> io \<Rightarrow> ((py_error + file_section list) \<times> io) option" where
  "parse_civ6save d s =
     (case parse_stages d s of
        None \<Rightarrow> None
      | Some (Inl e, s1) \<Rightarrow> Some (Inl e, s1)
      | Some (Inr result, s1) \<Rightarrow>
          let after_parsing_at = tell s1;
              s2 = seek_end s1;
              file_end_at = tell s2
          in if after_parsing_at \<noteq> file_end_at
             then Some (Inl (RuntimeError (FinishedBeforeEOF after_parsing_at file_end_at)), s2)
             else Some (Inr result, s2))"

subsection \<open>The scan over unrecognised input\<close>

datatype scan_item = Element game_element | Fragment "byte list"

text \<open>The loop of \<^verbatim>\<open>parse_jack_shit\<close>. Its condition, \<^verbatim>\<open>input_buffer.read(4) is not None\<close>,
  holds of every value \<^verbatim>\<open>read\<close> returns, so the loop is left only by the \<^verbatim>\<open>return\<close>
  inside it or by an exception; a run that never returns is \<open>None\<close>.\<close>

partial_function (option) scan_loop ::
  "nat \<Rightarrow> scan_item list \<Rightarrow> io \<Rightarrow> ((py_error + scan_item list) \<times> io) option" where
  "scan_loop d result s =
     (case read 4 s of (tag_bytes, s1) \<Rightarrow>
      let skip_target_pos = tell s1 in
      case parse_marker (Some tag_bytes) s1 of (marker, s2) \<Rightarrow>
      (case parse_element d marker s2 of
         (Inl e, s3) \<Rightarrow> Some (Inl e, s3)
       | (Inr None, s3) \<Rightarrow>
           if tag_bytes = [0, 0, 1, 0] then Some (Inr (result @ [Fragment tag_bytes]), s3)
           else scan_loop d (result @ [Fragment tag_bytes]) (seek skip_target_pos s3)
       | (Inr (Some element), s3) \<Rightarrow> scan_loop d (result @ [Element element]) s3))"

declare scan_loop.simps [code]

definition parse_jack_shit ::
  "nat \<Rightarrow> io \<Rightarrow> ((py_error + scan_item list) \<times> io) option" where
  "parse_jack_shit d s =
     (case read 4 s of (magic, s0) \<Rightarrow>
      if magic \<noteq> [0x43, 0x49, 0x56, 0x36] then Some (Inl AssertionError, s0)
      else scan_loop d [] s0)"

subsection \<open>Serialisation\<close>

text \<open>\<^verbatim>\<open>Marker.serialize\<close> reads the global \<^verbatim>\<open>name\<close>, and \<^verbatim>\<open>ByteData.serialize\<close> the
  globals \<^verbatim>\<open>b\<close> and \<^verbatim>\<open>b_per_element\<close>; the module binds none of them, so both raise
  NameError before anything else is evaluated.\<close>

definition marker_serialize :: "marker \<Rightarrow> py_error + byte list" where
  "marker_serialize m = Inl NameError"

definition byte_data_serialize :: "byte_data \<Rightarrow> py_error + byte list" where
  "byte_data_serialize c = Inl NameError"

text \<open>\<^verbatim>\<open>serialize\<close> of each element class, operands evaluated left to right:
  \<^verbatim>\<open>self.header\<close> is no attribute of an IntElement (AttributeError);
  \<^verbatim>\<open>self.marker.serialize + ...\<close> adds a bound method to bytes (TypeError), unless the
  other operand is an unbound name (\<^verbatim>\<open>content\<close>: NameError); \<^verbatim>\<open>chunks\<close>, \<^verbatim>\<open>elements\<close>
  and \<^verbatim>\<open>header\<close> are unbound names too.\<close>

fun serialize :: "game_element \<Rightarrow> py_error + byte list" where
  "serialize (IntElement m v) = Inl AttributeError"
| "serialize (UnknownStringElement m h) =
     (case marker_serialize m of Inl e \<Rightarrow> Inl e | Inr ms \<Rightarrow> Inr (ms @ h @ [0, 0, 0, 0]))"
| "serialize (StringElement m c) =
     (case marker_serialize m of
        Inl e \<Rightarrow> Inl e
      | Inr ms \<Rightarrow> (case byte_data_serialize c of Inl e \<Rightarrow> Inl e | Inr cs \<Rightarrow> Inr (ms @ cs)))"
| "serialize (UtfStringElement m c) =
     (case marker_serialize m of
        Inl e \<Rightarrow> Inl e
      | Inr ms \<Rightarrow> (case byte_data_serialize c of Inl e \<Rightarrow> Inl e | Inr cs \<Rightarrow> Inr (ms @ cs)))"
| "serialize (Unknown16Bytes m c) = Inl NameError"
| "serialize (TimestampElement m epoch) = Inl TypeError"
| "serialize (Unknown12Bytes m c) = Inl NameError"
| "serialize (BooleanElement m v) = Inl TypeError"
| "serialize (CompressedElement m h inflated_size chunks) = Inl NameError"
| "serialize (Array0AElement m elements) = Inl NameError"
| "serialize (Array0BElement m h content) =
     (case marker_serialize m of Inl e \<Rightarrow> Inl e | Inr ms \<Rightarrow> Inl NameError)"

text \<open>\<^verbatim>\<open>b''.join(element.serialize() for element in elements)\<close>; an entry that is
  \<^verbatim>\<open>None\<close> has no \<^verbatim>\<open>serialize\<close> (AttributeError).\<close>

fun join_serialize :: "game_element option list \<Rightarrow> py_error + byte list" where
  "join_serialize [] = Inr []"
| "join_serialize (None # es) = Inl AttributeError"
| "join_serialize (Some e # es) =
     (case serialize e of
        Inl err \<Rightarrow> Inl err
      | Inr bs \<Rightarrow> (case join_serialize es of Inl err \<Rightarrow> Inl err | Inr rest \<Rightarrow> Inr (bs @ rest)))"

text \<open>\<^verbatim>\<open>RegularFileSection.serialize\<close>.\<close>

definition regular_serialize :: "int \<Rightarrow> game_element option list \<Rightarrow> py_error + byte list" where
  "regular_serialize t elements =
     (let reported_size = int (length elements);
          reported_size' = (if t = 1 \<and> reported_size \<ge> 0x40 then reported_size - 4
                            else reported_size)
      in case to_bytes4 t of
           Inl e \<Rightarrow> Inl e
         | Inr tb \<Rightarrow>
             (case to_bytes4 reported_size' of
                Inl e \<Rightarrow> Inl e
              | Inr sb \<Rightarrow>
                  (case join_serialize elements of
                     Inl e \<Rightarrow> Inl e
                   | Inr body \<Rightarrow> Inr (tb @ sb @ body))))"

text \<open>\<^verbatim>\<open>serialize\<close> of each section class; the result is \<^verbatim>\<open>None\<close> where the method
  has no \<^verbatim>\<open>return\<close> (CompressedSection). \<^verbatim>\<open>MultiSection.serialize\<close> reads
  \<^verbatim>\<open>self.elements\<close>, which a MultiSection does not have; \<^verbatim>\<open>size\<close>, \<^verbatim>\<open>entries\<close> and
  \<^verbatim>\<open>label\<close> are unbound names.\<close>

fun section_serialize :: "file_section \<Rightarrow> py_error + byte list option" where
  "section_serialize (RegularFileSection t elements) =
     (case regular_serialize t elements of Inl e \<Rightarrow> Inl e | Inr bs \<Rightarrow> Inr (Some bs))"
| "section_serialize (NamelessSection t elements) =
     (case regular_serialize t elements of Inl e \<Rightarrow> Inl e | Inr bs \<Rightarrow> Inr (Some (drop 4 bs)))"
| "section_serialize EmptyFileSection = Inr (Some [0x10, 0, 0, 0])"
| "section_serialize (MultiSection subsections) = Inl AttributeError"
| "section_serialize (CompressedSection deflated_content) =
     (if list_all (\<lambda>c. int (length c) < 256 ^ 4) deflated_content then Inr None
      else Inl OverflowError)"
| "section_serialize (BitmapSection t sz bmap) =
     (case to_bytes4 t of Inl e \<Rightarrow> Inl e | Inr tb \<Rightarrow> Inl NameError)"
| "section_serialize (PairsSection entries) =
     (case to_bytes4 (int (length entries)) of Inl e \<Rightarrow> Inl e | Inr nb \<Rightarrow> Inl NameError)"
| "section_serialize (AlmostConstantSection bytes_field flagged_ints) =
     (case bytes_field of
        BytesClass \<Rightarrow> Inl TypeError
      | BytesValue bs \<Rightarrow>
          (case to_bytes4 (int (length bs)) of
             Inl e \<Rightarrow> Inl e
           | Inr lb \<Rightarrow>
               (case to_bytes4 (int (length flagged_ints)) of
                  Inl e \<Rightarrow> Inl e
                | Inr fb \<Rightarrow>
                    Inr (Some (lb @ bs @ fb @ concat flagged_ints
                               @ [1, 0, 0, 0, 1, 0, 0, 0, 1, 0, 0, 0])))))"
| "section_serialize (CustomDataSection label elements) =
     (case to_bytes4 (int (length label)) of Inl e \<Rightarrow> Inl e | Inr lb \<Rightarrow> Inl NameError)"

subsection \<open>Element after element\<close>

text \<open>From \<open>s\<close>, the iterations of the loop of \<^verbatim>\<open>parse_n_elements\<close> decode the
  values \<open>els\<close> one after the other and leave the state \<open>s'\<close>: every marker is
  present (the input has not ended where it is read) and no call of
  \<^verbatim>\<open>parse_element\<close> raises. A value is an element or \<^verbatim>\<open>None\<close>.\<close>

fun element_decodes :: "nat \<Rightarrow> io \<Rightarrow> game_element option list \<Rightarrow> io \<Rightarrow> bool" where
  "element_decodes d s [] s' = (s' = s)"
| "element_decodes d s (el # els) s' =
     (case parse_marker None s of
        (None, s1) \<Rightarrow> False
      | (Some mk, s1) \<Rightarrow>
          (case parse_element d (Some mk) s1 of
             (Inl e, s2) \<Rightarrow> False
           | (Inr element, s2) \<Rightarrow> element = el \<and> element_decodes d s2 els s'))"

subsection \<open>Tag after tag\<close>

text \<open>From \<open>s\<close>, the rounds of the loop of \<^verbatim>\<open>parse_jack_shit\<close> append the items
  \<open>items\<close> one after the other and leave the state \<open>s'\<close>: no call of
  \<^verbatim>\<open>parse_element\<close> raises and no round returns. A tag with no element is kept as
  a fragment and the cursor goes back to the byte after the tag.\<close>

fun scans :: "nat \<Rightarrow> io \<Rightarrow> scan_item list \<Rightarrow> io \<Rightarrow> bool" where
  "scans d s [] s' = (s' = s)"
| "scans d s (item # items) s' =
     (case read 4 s of (tag_bytes, s1) \<Rightarrow>
      case parse_marker (Some tag_bytes) s1 of (marker, s2) \<Rightarrow>
      (case parse_element d marker s2 of
         (Inl e, s3) \<Rightarrow> False
       | (Inr None, s3) \<Rightarrow>
           item = Fragment tag_bytes \<and> tag_bytes \<noteq> [0, 0, 1, 0] \<and>
           scans d (seek (tell s1) s3) items s'
       | (Inr (Some element), s3) \<Rightarrow> item = Element element \<and> scans d s3 items s'))"

text \<open>At \<open>s\<close> the tag read is \<^verbatim>\<open>00 00 01 00\<close> and no element is decoded from it,
  which leaves the state \<open>s'\<close>: the round in which the loop returns.\<close>

definition scan_stops :: "nat \<Rightarrow> io \<Rightarrow> io \<Rightarrow> bool" where
  "scan_stops d s s' =
     (case read 4 s of (tag_bytes, s1) \<Rightarrow>
      case parse_marker (Some tag_bytes) s1 of (marker, s2) \<Rightarrow>
        tag_bytes = [0, 0, 1, 0] \<and> parse_element d marker s2 = (Inr None, s'))"

subsection \<open>Section after section\<close>


subsection \<open>What a run changes\<close>




section \<open>Properties\<close>

subsection \<open>Integers read from the buffer\<close>

lemma from_bytes_nonneg: "0 \<le> from_bytes bs"
  by (induction bs) auto

lemma parse_int32_nonneg: "parse_int32 s = (v, s') \<Longrightarrow> 0 \<le> v"
  by (auto simp: parse_int32_def from_bytes_nonneg split: prod.splits)

subsection \<open>Byte data of length zero\<close>

text \<open>
  C5: in \<^verbatim>\<open>_read_byte_data\<close>, with a zero 3-byte count and a header byte other than
  0x21, the four bytes after the four stride bytes are compared with zero, but a
  mismatch raises nothing. On the twelve bytes \<^verbatim>\<open>00 00 00 | 00 | 01 00 00 00 | 01 02 03 04\<close>
  the last four are not zero and the function still returns the first eight bytes as
  its result, with the cursor behind all twelve.
\<close>

theorem read_byte_data_nonzero_accepted:
  "read_byte_data \<lparr>data = [0, 0, 0, 0, 1, 0, 0, 0, 1, 2, 3, 4], pos = 0, written = []\<rparr>
     = (Inr (IsBytes [0, 0, 0, 0, 1, 0, 0, 0]),
        \<lparr>data = [0, 0, 0, 0, 1, 0, 0, 0, 1, 2, 3, 4], pos = 12, written = []\<rparr>)"
  by (simp add: read_byte_data_def read_def parse_int32_def Let_def tell_def numeral_3_eq_3)

subsection \<open>The Boolean element\<close>

lemma zeros8: "replicate 8 (0::byte) = [0, 0, 0, 0, 0, 0, 0, 0]"
  by (simp add: numeral_eq_Suc)

text \<open>
  C8: an element of type code 0x1 whose eight padding bytes are zero decodes to a
  \<^verbatim>\<open>BooleanElement\<close> exactly when the value read after them is 0 or 1. Every other
  value (2, say) gives \<^verbatim>\<open>None\<close>, the failure of that one element, and no
  \<^verbatim>\<open>BooleanElement\<close>; the cursor is behind the value in both cases.
\<close>

theorem boolean_decode:
  assumes "type' m = 1"
    and "read 8 s = (replicate 8 0, s1)"
    and "parse_int32 s1 = (v, s2)"
  shows "parse_element d (Some m) s =
           (Inr (if v = 0 \<or> v = 1 then Some (BooleanElement m v) else None), s2)"
proof -
  have "0 \<le> v" using assms(3) by (rule parse_int32_nonneg)
  then have "(v > 1) = (\<not> (v = 0 \<or> v = 1))" by arith
  with assms show ?thesis by simp
qed

theorem boolean_decode_witness:
  "parse_element 0 (Some (Marker [1, 2, 3, 4] 1))
     \<lparr>data = [0, 0, 0, 0, 0, 0, 0, 0, 2, 0, 0, 0], pos = 0, written = []\<rparr>
   = (Inr None, \<lparr>data = [0, 0, 0, 0, 0, 0, 0, 0, 2, 0, 0, 0], pos = 12, written = []\<rparr>)"
proof -
  have h1: "type' (Marker [1, 2, 3, 4] 1) = 1" by simp
  have h2: "read 8 \<lparr>data = [0, 0, 0, 0, 0, 0, 0, 0, 2, 0, 0, 0], pos = 0, written = []\<rparr>
              = (replicate 8 0,
                 \<lparr>data = [0, 0, 0, 0, 0, 0, 0, 0, 2, 0, 0, 0], pos = 8, written = []\<rparr>)"
    by (simp add: read_def Let_def zeros8)
  have h3: "parse_int32 \<lparr>data = [0, 0, 0, 0, 0, 0, 0, 0, 2, 0, 0, 0], pos = 8, written = []\<rparr>
              = (2, \<lparr>data = [0, 0, 0, 0, 0, 0, 0, 0, 2, 0, 0, 0], pos = 12, written = []\<rparr>)"
    by (simp add: parse_int32_def read_def Let_def)
  show ?thesis
    using boolean_decode [OF h1 h2 h3, of 0] by simp
qed

subsection \<open>The number of entries of an element list\<close>

lemma parse_n_elements_length_aux:
  "parse_n_elements d n s = (Inr els, s') \<Longrightarrow> length els = n"
proof (induction n arbitrary: s els s')
  case 0
  then show ?case by simp
next
  case (Suc n)
  then show ?case
    by (auto split: prod.splits sum.splits if_splits)
qed

text \<open>
  C10, as stated, fails: \<^verbatim>\<open>parse_n_elements\<close> does not return a list for every
  stream. An element of type 0x14 whose eight-byte prefix is not
  \<^verbatim>\<open>00 00 00 80 00 00 00 00\<close> fails an assertion of \<^verbatim>\<open>parse_element\<close>, and
  the exception ends \<^verbatim>\<open>parse_n_elements\<close> with no list at all.
\<close>

theorem parse_n_elements_raises:
  "parse_n_elements 0 1
     \<lparr>data = [1, 2, 3, 4, 0x14, 0, 0, 0, 0, 0, 0, 0, 0, 0, 0, 0], pos = 0, written = []\<rparr>
   = (Inl AssertionError,
      \<lparr>data = [1, 2, 3, 4, 0x14, 0, 0, 0, 0, 0, 0, 0, 0, 0, 0, 0], pos = 16, written = []\<rparr>)"
  by (simp add: parse_marker_def read_def parse_int32_def Let_def)

text \<open>
  C10, amended: for every stream on which the first \<open>n\<close> markers are present and
  none of the \<open>n\<close> calls of \<^verbatim>\<open>parse_element\<close> raises, \<^verbatim>\<open>parse_n_elements\<close>
  returns a list of exactly \<open>n\<close> entries, the \<open>i\<close>-th entry being what the \<open>i\<close>-th
  call returned: the decoded element, or \<^verbatim>\<open>None\<close> where the element was not decoded.
  Such a \<^verbatim>\<open>None\<close> neither shortens nor lengthens the list.
\<close>

theorem parse_n_elements_entries:
  "element_decodes d s els s' \<Longrightarrow> parse_n_elements d (length els) s = (Inr els, s')"
proof (induction els arbitrary: s)
  case Nil
  then show ?case by simp
next
  case (Cons el els)
  obtain mo s1 where p1: "parse_marker None s = (mo, s1)" by (cases "parse_marker None s")
  from Cons.prems p1 obtain mk where mk: "mo = Some mk" by (cases mo) auto
  obtain r s2 where p2: "parse_element d (Some mk) s1 = (r, s2)"
    by (cases "parse_element d (Some mk) s1")
  from Cons.prems p1 mk p2 have r: "r = Inr el" and rest: "element_decodes d s2 els s'"
    by (auto split: sum.splits)
  have "parse_n_elements d (length els) s2 = (Inr els, s')"
    using rest by (rule Cons.IH)
  then show ?case using p1 mk p2 r by simp
qed

theorem parse_n_elements_entries_witness:
  "element_decodes 0
     \<lparr>data = [0xAA, 0xBB, 0xCC, 0xDD, 0x99, 0, 0, 0,
              1, 2, 3, 4, 1, 0, 0, 0, 0, 0, 0, 0, 0, 0, 0, 0, 1, 0, 0, 0],
       pos = 0, written = []\<rparr>
     [None, Some (BooleanElement (Marker [1, 2, 3, 4] 1) 1)]
     \<lparr>data = [0xAA, 0xBB, 0xCC, 0xDD, 0x99, 0, 0, 0,
              1, 2, 3, 4, 1, 0, 0, 0, 0, 0, 0, 0, 0, 0, 0, 0, 1, 0, 0, 0],
       pos = 28, written = []\<rparr>
   \<and> parse_n_elements 0 (length [None, Some (BooleanElement (Marker [1, 2, 3, 4] 1) 1)])
     \<lparr>data = [0xAA, 0xBB, 0xCC, 0xDD, 0x99, 0, 0, 0,
              1, 2, 3, 4, 1, 0, 0, 0, 0, 0, 0, 0, 0, 0, 0, 0, 1, 0, 0, 0],
       pos = 0, written = []\<rparr>
   = (Inr [None, Some (BooleanElement (Marker [1, 2, 3, 4] 1) 1)],
      \<lparr>data = [0xAA, 0xBB, 0xCC, 0xDD, 0x99, 0, 0, 0,
               1, 2, 3, 4, 1, 0, 0, 0, 0, 0, 0, 0, 0, 0, 0, 0, 1, 0, 0, 0],
        pos = 28, written = []\<rparr>)"
proof -
  have h: "element_decodes 0
     \<lparr>data = [0xAA, 0xBB, 0xCC, 0xDD, 0x99, 0, 0, 0,
              1, 2, 3, 4, 1, 0, 0, 0, 0, 0, 0, 0, 0, 0, 0, 0, 1, 0, 0, 0],
       pos = 0, written = []\<rparr>
     [None, Some (BooleanElement (Marker [1, 2, 3, 4] 1) 1)]
     \<lparr>data = [0xAA, 0xBB, 0xCC, 0xDD, 0x99, 0, 0, 0,
              1, 2, 3, 4, 1, 0, 0, 0, 0, 0, 0, 0, 0, 0, 0, 0, 1, 0, 0, 0],
       pos = 28, written = []\<rparr>"
    by (simp add: parse_marker_def read_def parse_int32_def Let_def zeros8)
  from h parse_n_elements_entries [OF h] show ?thesis by (rule conjI)
qed

subsection \<open>The element count of a regular section\<close>

text \<open>Reading a known prefix of the rest of the input.\<close>

lemma read_prefix:
  assumes "drop (pos s) (data s) = xs @ rest" and "length xs = n"
  shows "read n s = (xs, s\<lparr>pos := pos s + n\<rparr>)"
  using assms by (auto simp: read_def Let_def)

lemma drop_prefix:
  assumes "drop (pos s) (data s) = xs @ rest" and "length xs = n"
  shows "drop (pos s + n) (data s) = rest"
proof -
  have "drop (pos s + n) (data s) = drop n (drop (pos s) (data s))"
    by (simp add: add.commute)
  then show ?thesis using assms by simp
qed

lemma parse_n_elements_zeros:
  "drop (pos s) (data s) = replicate (8 * n) 0 @ rest \<Longrightarrow>
   parse_n_elements d n s = (Inr (replicate n None), s\<lparr>pos := pos s + 8 * n\<rparr>)"
proof (induction n arbitrary: s)
  case 0
  then show ?case by simp
next
  case (Suc n)
  let ?s1 = "s\<lparr>pos := pos s + 4\<rparr>"
  let ?s2 = "s\<lparr>pos := pos s + 8\<rparr>"
  have rep: "replicate (8 * Suc n) (0::byte) = [0, 0, 0, 0] @ [0, 0, 0, 0] @ replicate (8 * n) 0"
    by (simp add: numeral_eq_Suc)
  have d0: "drop (pos s) (data s) = [0, 0, 0, 0] @ ([0, 0, 0, 0] @ replicate (8 * n) 0 @ rest)"
    using Suc.prems rep by simp
  have r1: "read 4 s = ([0, 0, 0, 0], ?s1)"
    by (rule read_prefix[OF d0]) simp
  have d1: "drop (pos ?s1) (data ?s1) = [0, 0, 0, 0] @ (replicate (8 * n) 0 @ rest)"
    using drop_prefix[OF d0, of 4] by simp
  have r2: "read 4 ?s1 = ([0, 0, 0, 0], ?s2)"
    using read_prefix[OF d1, of 4] by simp
  have d2: "drop (pos ?s2) (data ?s2) = replicate (8 * n) 0 @ rest"
    using drop_prefix[OF d1, of 4] by (simp add: add.commute)
  have m: "parse_marker None s = (Some (Marker [0, 0, 0, 0] 0), ?s2)"
    by (simp add: parse_marker_def r1 parse_int32_def r2)
  have ih: "parse_n_elements d n ?s2 = (Inr (replicate n None), ?s2\<lparr>pos := pos ?s2 + 8 * n\<rparr>)"
    using Suc.IH[OF d2] .
  show ?case
    by (simp add: m ih)
qed

text \<open>
  C3, as stated, fails at the raw count 0x40: with the type byte 1 and the count field
  0x40, followed by 64 elements of the unknown type 0, \<^verbatim>\<open>parse_regular_section\<close>
  reads 64 elements, not 68, and stops 8 + 64 * 8 = 520 bytes in.
\<close>

theorem regular_section_count_0x40:
  "parse_regular_section 0
     \<lparr>data = [1, 0, 0, 0, 0x40, 0, 0, 0] @ replicate (8 * 0x40) 0, pos = 0, written = []\<rparr>
   = (Inr (RegularFileSection 1 (replicate 0x40 None)),
      \<lparr>data = [1, 0, 0, 0, 0x40, 0, 0, 0] @ replicate (8 * 0x40) 0, pos = 520, written = []\<rparr>)"
proof -
  define dat where "dat = [1, 0, 0, 0, 0x40, 0, 0, 0] @ replicate (8 * 0x40) (0::byte)"
  have r1: "read 4 \<lparr>data = dat, pos = 0, written = []\<rparr>
              = ([1, 0, 0, 0], \<lparr>data = dat, pos = 4, written = []\<rparr>)"
    by (simp add: read_def Let_def dat_def)
  have r2: "parse_int32 \<lparr>data = dat, pos = 4, written = []\<rparr>
              = (0x40, \<lparr>data = dat, pos = 8, written = []\<rparr>)"
    by (simp add: parse_int32_def read_def Let_def dat_def)
  have d: "drop (pos \<lparr>data = dat, pos = 8, written = []\<rparr>) (data \<lparr>data = dat, pos = 8, written = []\<rparr>)
             = replicate (8 * 0x40) 0 @ []"
    by (simp add: dat_def)
  have p: "parse_n_elements 0 0x40 \<lparr>data = dat, pos = 8, written = []\<rparr>
             = (Inr (replicate 0x40 None), \<lparr>data = dat, pos = 520, written = []\<rparr>)"
    using parse_n_elements_zeros[OF d, of 0] by simp
  have "parse_regular_section 0 \<lparr>data = dat, pos = 0, written = []\<rparr>
          = (Inr (RegularFileSection 1 (replicate 0x40 None)), \<lparr>data = dat, pos = 520, written = []\<rparr>)"
    by (simp add: parse_regular_section_def r1 r2 p)
  then show ?thesis unfolding dat_def .
qed

text \<open>
  C3, amended: in every decode of a regular section that is not the sentinel
  \<^verbatim>\<open>10 00 00 00\<close>, if the first byte of the type code is 1 and the raw count field
  is greater than 0x40 (0x40 itself excluded), the number of elements read is the raw
  count plus 4; otherwise it is the raw count. So type byte 1 with raw count 0x41
  gives 0x45 elements.
\<close>

theorem regular_section_count:
  assumes "read 4 s = (t0 # ts, s1)"
    and "t0 # ts \<noteq> [0x10, 0, 0, 0]"
    and "parse_int32 s1 = (count, s2)"
    and "parse_regular_section d s = (Inr sec, s')"
  shows "\<exists>elements. sec = RegularFileSection (uint t0) elements \<and>
           int (length elements) = (if uint t0 = 1 \<and> count > 0x40 then count + 4 else count)"
proof -
  have nn: "0 \<le> count" using assms(3) by (rule parse_int32_nonneg)
  from assms show ?thesis
    using nn
    by (auto simp: parse_regular_section_def Let_def
          split: prod.splits sum.splits if_splits dest!: parse_n_elements_length_aux)
qed

theorem regular_section_count_witness:
  "parse_regular_section 0
     \<lparr>data = [1, 0, 0, 0, 0x41, 0, 0, 0] @ replicate (8 * 0x45) 0, pos = 0, written = []\<rparr>
   = (Inr (RegularFileSection 1 (replicate 0x45 None)),
      \<lparr>data = [1, 0, 0, 0, 0x41, 0, 0, 0] @ replicate (8 * 0x45) 0, pos = 560, written = []\<rparr>)
   \<and> (\<exists>elements. RegularFileSection 1 (replicate 0x45 None) = RegularFileSection 1 elements
         \<and> int (length elements) = 0x45)"
proof -
  define dat where "dat = [1, 0, 0, 0, 0x41, 0, 0, 0] @ replicate (8 * 0x45) (0::byte)"
  have r1: "read 4 \<lparr>data = dat, pos = 0, written = []\<rparr>
              = (1 # [0, 0, 0], \<lparr>data = dat, pos = 4, written = []\<rparr>)"
    by (simp add: read_def Let_def dat_def)
  have ne: "(1::byte) # [0, 0, 0] \<noteq> [0x10, 0, 0, 0]" by simp
  have r2: "parse_int32 \<lparr>data = dat, pos = 4, written = []\<rparr>
              = (0x41, \<lparr>data = dat, pos = 8, written = []\<rparr>)"
    by (simp add: parse_int32_def read_def Let_def dat_def)
  have d: "drop (pos \<lparr>data = dat, pos = 8, written = []\<rparr>) (data \<lparr>data = dat, pos = 8, written = []\<rparr>)
             = replicate (8 * 0x45) 0 @ []"
    by (simp add: dat_def)
  have p: "parse_n_elements 0 0x45 \<lparr>data = dat, pos = 8, written = []\<rparr>
             = (Inr (replicate 0x45 None), \<lparr>data = dat, pos = 560, written = []\<rparr>)"
    using parse_n_elements_zeros[OF d, of 0] by simp
  have h: "parse_regular_section 0 \<lparr>data = dat, pos = 0, written = []\<rparr>
          = (Inr (RegularFileSection 1 (replicate 0x45 None)), \<lparr>data = dat, pos = 560, written = []\<rparr>)"
    by (simp add: parse_regular_section_def r1 r2 p)
  from regular_section_count [OF r1 ne r2 h] h show ?thesis
    unfolding dat_def by simp
qed

subsection \<open>The input, the cursor and the written files along a run\<close>






























subsection \<open>Sample documents\<close>

text \<open>The shortest document the strict parse accepts, 72 bytes: the magic bytes, a
  regular section of type 2 with no elements, a multisection with no subsections, a
  nameless section with no elements, one empty compressed chunk, a bitmap of size
  0 by 0, no pairs, the constant section with its trailer, and custom data with an
  empty label and no elements.\<close>

lemma parse_stages_minimal:
  "parse_stages 0
     \<lparr>data = [0x43, 0x49, 0x56, 0x36,
              2, 0, 0, 0, 0, 0, 0, 0,
              0, 0, 0, 0,
              0, 0, 0, 0,
              0, 0, 0, 0,
              0, 0, 0, 0, 0, 0, 0, 0, 0, 0, 0, 0,
              0xA5, 0xA5, 0, 0, 0, 0, 0, 0,
              0, 0, 0, 0, 0, 0, 0, 0, 1, 0, 0, 0, 1, 0, 0, 0, 1, 0, 0, 0,
              0, 0, 0, 0, 0, 0, 0, 0],
       pos = 0, written = []\<rparr>
   = Some (Inr [RegularFileSection 2 [], MultiSection [], NamelessSection (- 1) [],
            CompressedSection [[]], BitmapSection 0 (0, 0) [], PairsSection [],
            AlmostConstantSection BytesClass [], CustomDataSection [] []],
           \<lparr>data = [0x43, 0x49, 0x56, 0x36,
              2, 0, 0, 0, 0, 0, 0, 0,
              0, 0, 0, 0,
              0, 0, 0, 0,
              0, 0, 0, 0,
              0, 0, 0, 0, 0, 0, 0, 0, 0, 0, 0, 0,
              0xA5, 0xA5, 0, 0, 0, 0, 0, 0,
              0, 0, 0, 0, 0, 0, 0, 0, 1, 0, 0, 0, 1, 0, 0, 0, 1, 0, 0, 0,
              0, 0, 0, 0, 0, 0, 0, 0],
       pos = 72, written = []\<rparr>)"
  by (simp add: parse_stages_def stage1_loop.simps stage1_break_def
        parse_regular_section_def parse_multisection_def parse_nameless_section_def
        parse_compressed_def compressed_loop.simps parse_bmap_def parse_pairs_section_def
        parse_weird_constant_data_def parse_custom_data_def
        read_def parse_int32_def Let_def)

text \<open>The same document with one more byte behind it.\<close>

lemma parse_stages_minimal_longer:
  "parse_stages 0
     \<lparr>data = [0x43, 0x49, 0x56, 0x36,
              2, 0, 0, 0, 0, 0, 0, 0,
              0, 0, 0, 0,
              0, 0, 0, 0,
              0, 0, 0, 0,
              0, 0, 0, 0, 0, 0, 0, 0, 0, 0, 0, 0,
              0xA5, 0xA5, 0, 0, 0, 0, 0, 0,
              0, 0, 0, 0, 0, 0, 0, 0, 1, 0, 0, 0, 1, 0, 0, 0, 1, 0, 0, 0,
              0, 0, 0, 0, 0, 0, 0, 0,
              0xFF],
       pos = 0, written = []\<rparr>
   = Some (Inr [RegularFileSection 2 [], MultiSection [], NamelessSection (- 1) [],
            CompressedSection [[]], BitmapSection 0 (0, 0) [], PairsSection [],
            AlmostConstantSection BytesClass [], CustomDataSection [] []],
           \<lparr>data = [0x43, 0x49, 0x56, 0x36,
              2, 0, 0, 0, 0, 0, 0, 0,
              0, 0, 0, 0,
              0, 0, 0, 0,
              0, 0, 0, 0,
              0, 0, 0, 0, 0, 0, 0, 0, 0, 0, 0, 0,
              0xA5, 0xA5, 0, 0, 0, 0, 0, 0,
              0, 0, 0, 0, 0, 0, 0, 0, 1, 0, 0, 0, 1, 0, 0, 0, 1, 0, 0, 0,
              0, 0, 0, 0, 0, 0, 0, 0,
              0xFF],
       pos = 72, written = []\<rparr>)"
  by (simp add: parse_stages_def stage1_loop.simps stage1_break_def
        parse_regular_section_def parse_multisection_def parse_nameless_section_def
        parse_compressed_def compressed_loop.simps parse_bmap_def parse_pairs_section_def
        parse_weird_constant_data_def parse_custom_data_def
        read_def parse_int32_def Let_def)

subsection \<open>The check at the end of the document\<close>

text \<open>
  C7: when the eight stages of \<^verbatim>\<open>parse_civ6save\<close> have returned their sections, the
  cursor is compared with the length of the input. If the two are equal the parse
  returns the list of sections in order; if they differ, whichever is larger, it
  raises the RuntimeError for a parse that finished away from the end of the file.
\<close>

theorem parse_civ6save_end_check:
  assumes "parse_stages d s = Some (Inr result, s1)"
  shows "parse_civ6save d s =
           (if pos s1 = length (data s1) then Some (Inr result, seek_end s1)
            else Some (Inl (RuntimeError (FinishedBeforeEOF (pos s1) (length (data s1)))),
                       seek_end s1))"
  using assms by (simp add: parse_civ6save_def Let_def tell_def seek_end_def)

theorem parse_civ6save_end_check_witness:
  "parse_civ6save 0
     \<lparr>data = [0x43, 0x49, 0x56, 0x36,
              2, 0, 0, 0, 0, 0, 0, 0,
              0, 0, 0, 0,
              0, 0, 0, 0,
              0, 0, 0, 0,
              0, 0, 0, 0, 0, 0, 0, 0, 0, 0, 0, 0,
              0xA5, 0xA5, 0, 0, 0, 0, 0, 0,
              0, 0, 0, 0, 0, 0, 0, 0, 1, 0, 0, 0, 1, 0, 0, 0, 1, 0, 0, 0,
              0, 0, 0, 0, 0, 0, 0, 0],
       pos = 0, written = []\<rparr>
   = Some (Inr [RegularFileSection 2 [], MultiSection [], NamelessSection (- 1) [],
            CompressedSection [[]], BitmapSection 0 (0, 0) [], PairsSection [],
            AlmostConstantSection BytesClass [], CustomDataSection [] []],
           \<lparr>data = [0x43, 0x49, 0x56, 0x36,
              2, 0, 0, 0, 0, 0, 0, 0,
              0, 0, 0, 0,
              0, 0, 0, 0,
              0, 0, 0, 0,
              0, 0, 0, 0, 0, 0, 0, 0, 0, 0, 0, 0,
              0xA5, 0xA5, 0, 0, 0, 0, 0, 0,
              0, 0, 0, 0, 0, 0, 0, 0, 1, 0, 0, 0, 1, 0, 0, 0, 1, 0, 0, 0,
              0, 0, 0, 0, 0, 0, 0, 0],
       pos = 72, written = []\<rparr>)
   \<and> parse_civ6save 0
     \<lparr>data = [0x43, 0x49, 0x56, 0x36,
              2, 0, 0, 0, 0, 0, 0, 0,
              0, 0, 0, 0,
              0, 0, 0, 0,
              0, 0, 0, 0,
              0, 0, 0, 0, 0, 0, 0, 0, 0, 0, 0, 0,
              0xA5, 0xA5, 0, 0, 0, 0, 0, 0,
              0, 0, 0, 0, 0, 0, 0, 0, 1, 0, 0, 0, 1, 0, 0, 0, 1, 0, 0, 0,
              0, 0, 0, 0, 0, 0, 0, 0,
              0xFF],
       pos = 0, written = []\<rparr>
   = Some (Inl (RuntimeError (FinishedBeforeEOF 72 73)),
           \<lparr>data = [0x43, 0x49, 0x56, 0x36,
              2, 0, 0, 0, 0, 0, 0, 0,
              0, 0, 0, 0,
              0, 0, 0, 0,
              0, 0, 0, 0,
              0, 0, 0, 0, 0, 0, 0, 0, 0, 0, 0, 0,
              0xA5, 0xA5, 0, 0, 0, 0, 0, 0,
              0, 0, 0, 0, 0, 0, 0, 0, 1, 0, 0, 0, 1, 0, 0, 0, 1, 0, 0, 0,
              0, 0, 0, 0, 0, 0, 0, 0,
              0xFF],
       pos = 73, written = []\<rparr>)"
  using parse_civ6save_end_check [OF parse_stages_minimal]
    parse_civ6save_end_check [OF parse_stages_minimal_longer]
  by (simp add: seek_end_def)

subsection \<open>Files written by a parse\<close>






subsection \<open>The end of stage 1\<close>







subsection \<open>The scan\<close>

text \<open>
  C4, as stated, fails: the scan does fail. After the magic bytes, a tag followed by
  the type code 0x14 and eight bytes that are not \<^verbatim>\<open>00 00 00 80 00 00 00 00\<close> fails
  an assertion of \<^verbatim>\<open>parse_element\<close>, and \<^verbatim>\<open>parse_jack_shit\<close> ends with that
  exception and no list.
\<close>

theorem parse_jack_shit_raises:
  "parse_jack_shit 0
     \<lparr>data = [0x43, 0x49, 0x56, 0x36,
              1, 2, 3, 4, 0x14, 0, 0, 0, 0, 0, 0, 0, 0, 0, 0, 0,
              0, 0, 1, 0],
       pos = 0, written = []\<rparr>
   = Some (Inl AssertionError,
           \<lparr>data = [0x43, 0x49, 0x56, 0x36,
              1, 2, 3, 4, 0x14, 0, 0, 0, 0, 0, 0, 0, 0, 0, 0, 0,
              0, 0, 1, 0],
       pos = 20, written = []\<rparr>)"
  by (simp add: parse_jack_shit_def scan_loop.simps parse_marker_def
        read_def parse_int32_def Let_def tell_def seek_def)

lemma scan_loop_returns:
  assumes "scans d s items s1" and "scan_stops d s1 s'"
  shows "scan_loop d acc s = Some (Inr (acc @ items @ [Fragment [0, 0, 1, 0]]), s')"
  using assms
proof (induction items arbitrary: acc s)
  case Nil
  then have s1: "s1 = s" by simp
  obtain tag t1 where p1: "read 4 s = (tag, t1)" by (cases "read 4 s")
  obtain mk t2 where p2: "parse_marker (Some tag) t1 = (mk, t2)"
    by (cases "parse_marker (Some tag) t1")
  from Nil.prems(2) s1 p1 p2 have tag: "tag = [0, 0, 1, 0]"
    and el: "parse_element d mk t2 = (Inr None, s')"
    by (auto simp: scan_stops_def)
  show ?case
    using p1 p2 tag el by (subst scan_loop.simps) (simp add: Let_def)
next
  case (Cons item items)
  obtain tag t1 where p1: "read 4 s = (tag, t1)" by (cases "read 4 s")
  obtain mk t2 where p2: "parse_marker (Some tag) t1 = (mk, t2)"
    by (cases "parse_marker (Some tag) t1")
  obtain r t3 where p3: "parse_element d mk t2 = (r, t3)"
    by (cases "parse_element d mk t2")
  from Cons.prems(1) p1 p2 p3 obtain el where r: "r = Inr el"
    by (cases r) auto
  show ?case
  proof (cases el)
    case None
    with Cons.prems(1) p1 p2 p3 r have i: "item = Fragment tag" and nt: "tag \<noteq> [0, 0, 1, 0]"
      and rest: "scans d (seek (tell t1) t3) items s1"
      by auto
    have "scan_loop d acc s = scan_loop d (acc @ [Fragment tag]) (seek (tell t1) t3)"
      using p1 p2 p3 r None nt by (subst scan_loop.simps) (simp add: Let_def)
    also have "\<dots> = Some (Inr ((acc @ [Fragment tag]) @ items @ [Fragment [0, 0, 1, 0]]), s')"
      using rest Cons.prems(2) by (rule Cons.IH)
    finally show ?thesis using i by simp
  next
    case (Some element)
    with Cons.prems(1) p1 p2 p3 r have i: "item = Element element"
      and rest: "scans d t3 items s1"
      by auto
    have "scan_loop d acc s = scan_loop d (acc @ [Element element]) t3"
      using p1 p2 p3 r Some by (subst scan_loop.simps) (simp add: Let_def)
    also have "\<dots> = Some (Inr ((acc @ [Element element]) @ items @ [Fragment [0, 0, 1, 0]]), s')"
      using rest Cons.prems(2) by (rule Cons.IH)
    finally show ?thesis using i by simp
  qed
qed

text \<open>
  C4, amended: on every input that starts with the magic bytes and on which no element
  decode raises before the tag \<^verbatim>\<open>00 00 01 00\<close> is read at a point where no element
  is decoded from it, \<^verbatim>\<open>parse_jack_shit\<close> returns the list of the decoded elements
  and the raw 4-byte fragments in the order of the stream, ending with the fragment
  \<^verbatim>\<open>00 00 01 00\<close>. A tag from which no element is decoded never aborts the scan: it
  is kept as a raw fragment and the scan resumes at the byte after the tag.
\<close>

theorem parse_jack_shit_returns:
  assumes "read 4 s = ([0x43, 0x49, 0x56, 0x36], s0)"
    and "scans d s0 items s1"
    and "scan_stops d s1 s'"
  shows "parse_jack_shit d s = Some (Inr (items @ [Fragment [0, 0, 1, 0]]), s')"
  using assms(1) scan_loop_returns [OF assms(2) assms(3), of "[]"]
  by (simp add: parse_jack_shit_def)

theorem parse_jack_shit_returns_witness:
  "parse_jack_shit 0
     \<lparr>data = [0x43, 0x49, 0x56, 0x36,
              0xAA, 0xBB, 0xCC, 0xDD,
              1, 2, 3, 4, 1, 0, 0, 0, 0, 0, 0, 0, 0, 0, 0, 0, 1, 0, 0, 0,
              0, 0, 1, 0],
       pos = 0, written = []\<rparr>
   = Some (Inr ([Fragment [0xAA, 0xBB, 0xCC, 0xDD],
                 Element (BooleanElement (Marker [1, 2, 3, 4] 1) 1)]
                @ [Fragment [0, 0, 1, 0]]),
           \<lparr>data = [0x43, 0x49, 0x56, 0x36,
              0xAA, 0xBB, 0xCC, 0xDD,
              1, 2, 3, 4, 1, 0, 0, 0, 0, 0, 0, 0, 0, 0, 0, 0, 1, 0, 0, 0,
              0, 0, 1, 0],
       pos = 32, written = []\<rparr>)"
proof -
  have h1: "read 4
     \<lparr>data = [0x43, 0x49, 0x56, 0x36,
              0xAA, 0xBB, 0xCC, 0xDD,
              1, 2, 3, 4, 1, 0, 0, 0, 0, 0, 0, 0, 0, 0, 0, 0, 1, 0, 0, 0,
              0, 0, 1, 0],
       pos = 0, written = []\<rparr>
     = ([0x43, 0x49, 0x56, 0x36],
        \<lparr>data = [0x43, 0x49, 0x56, 0x36,
              0xAA, 0xBB, 0xCC, 0xDD,
              1, 2, 3, 4, 1, 0, 0, 0, 0, 0, 0, 0, 0, 0, 0, 0, 1, 0, 0, 0,
              0, 0, 1, 0],
       pos = 4, written = []\<rparr>)"
    by (simp add: read_def Let_def)
  have h2: "scans 0
     \<lparr>data = [0x43, 0x49, 0x56, 0x36,
              0xAA, 0xBB, 0xCC, 0xDD,
              1, 2, 3, 4, 1, 0, 0, 0, 0, 0, 0, 0, 0, 0, 0, 0, 1, 0, 0, 0,
              0, 0, 1, 0],
       pos = 4, written = []\<rparr>
     [Fragment [0xAA, 0xBB, 0xCC, 0xDD], Element (BooleanElement (Marker [1, 2, 3, 4] 1) 1)]
     \<lparr>data = [0x43, 0x49, 0x56, 0x36,
              0xAA, 0xBB, 0xCC, 0xDD,
              1, 2, 3, 4, 1, 0, 0, 0, 0, 0, 0, 0, 0, 0, 0, 0, 1, 0, 0, 0,
              0, 0, 1, 0],
       pos = 28, written = []\<rparr>"
    by (simp add: parse_marker_def read_def parse_int32_def Let_def tell_def seek_def zeros8)
  have h3: "scan_stops 0
     \<lparr>data = [0x43, 0x49, 0x56, 0x36,
              0xAA, 0xBB, 0xCC, 0xDD,
              1, 2, 3, 4, 1, 0, 0, 0, 0, 0, 0, 0, 0, 0, 0, 0, 1, 0, 0, 0,
              0, 0, 1, 0],
       pos = 28, written = []\<rparr>
     \<lparr>data = [0x43, 0x49, 0x56, 0x36,
              0xAA, 0xBB, 0xCC, 0xDD,
              1, 2, 3, 4, 1, 0, 0, 0, 0, 0, 0, 0, 0, 0, 0, 0, 1, 0, 0, 0,
              0, 0, 1, 0],
       pos = 32, written = []\<rparr>"
    by (simp add: scan_stops_def parse_marker_def read_def parse_int32_def Let_def)
  show ?thesis by (rule parse_jack_shit_returns [OF h1 h2 h3])
qed

subsection \<open>Serialisation\<close>

lemma serialize_raises: "\<exists>err. serialize e = Inl err"
  by (cases e) (auto simp: marker_serialize_def byte_data_serialize_def)

text \<open>
  C1: decoding the 28 bytes of a regular section of type 1 with one Boolean element
  (marker \<^verbatim>\<open>AA BB CC DD\<close>, type code 1, eight zero bytes, value 1) gives a
  \<^verbatim>\<open>RegularFileSection\<close> with that element, and serialising the section raises
  TypeError instead of giving the 28 bytes back: \<^verbatim>\<open>BooleanElement.serialize\<close> adds
  the method \<^verbatim>\<open>self.marker.serialize\<close>, not its result, to a bytes value.
\<close>

theorem regular_section_round_trip_raises:
  "parse_regular_section 0
     \<lparr>data = [1, 0, 0, 0, 1, 0, 0, 0,
              0xAA, 0xBB, 0xCC, 0xDD, 1, 0, 0, 0, 0, 0, 0, 0, 0, 0, 0, 0, 1, 0, 0, 0],
       pos = 0, written = []\<rparr>
   = (Inr (RegularFileSection 1
             [Some (BooleanElement (Marker [0xAA, 0xBB, 0xCC, 0xDD] 1) 1)]),
      \<lparr>data = [1, 0, 0, 0, 1, 0, 0, 0,
              0xAA, 0xBB, 0xCC, 0xDD, 1, 0, 0, 0, 0, 0, 0, 0, 0, 0, 0, 0, 1, 0, 0, 0],
       pos = 28, written = []\<rparr>)
   \<and> section_serialize
       (RegularFileSection 1 [Some (BooleanElement (Marker [0xAA, 0xBB, 0xCC, 0xDD] 1) 1)])
     = Inl TypeError"
  by (simp add: parse_regular_section_def parse_marker_def read_def parse_int32_def
        Let_def zeros8 regular_serialize_def to_bytes4_def to_bytes_def)

subsection \<open>Exceptions of an element decode\<close>






end
